theory Spec2Isabelle
  imports Main "HOL-Library.Word" "HOL-Library.AList"
begin

section \<open>The file manager of \<^verbatim>\<open>src/index.js\<close>\<close>

text \<open>
  The program is a read-eval-print loop over a Node.js \<^verbatim>\<open>readline\<close> interface.  Its only
  own state is the variable \<^verbatim>\<open>currentDir\<close>; everything else lives in the file system.
  The embedding has three layers:
  \<^item> the string and path functions the handlers call (\<^verbatim>\<open>trim\<close>, \<^verbatim>\<open>split\<close>,
    \<^verbatim>\<open>path.resolve\<close>, \<^verbatim>\<open>path.parse\<close>), for POSIX paths;
  \<^item> a file system with directories, regular files (an inode number and its data) and
    symbolic links, and the calls of \<^verbatim>\<open>fs\<close> the handlers make on it;
  \<^item> the handlers and the \<^verbatim>\<open>'line'\<close> listener, function by function as in the source.

  A rejected promise or a thrown exception is the \<open>Inl\<close> of a sum.  A stream that a handler
  creates and does not wait for is a \<open>job\<close> left in the state: the handler returns, the
  prompt is printed, and the data move when the job is run.
\<close>

subsection \<open>Strings\<close>

type_synonym byte = "8 word"

text \<open>
  \<^verbatim>\<open>String.prototype.trim\<close> strips white space and line terminators.  Characters are the
  code units below 256; the white space of ECMAScript in that range is TAB, LF, VT, FF, CR,
  SPACE and NBSP.
\<close>

definition js_whitespace :: "char \<Rightarrow> bool" where
  "js_whitespace c \<longleftrightarrow>
     c = CHR 0x09 \<or> c = CHR 0x0A \<or> c = CHR 0x0B \<or> c = CHR 0x0C \<or> c = CHR 0x0D \<or>
     c = CHR '' '' \<or> c = CHR 0xA0"

definition trim :: "string \<Rightarrow> string" where
  "trim s = rev (dropWhile js_whitespace (rev (dropWhile js_whitespace s)))"

text \<open>\<^verbatim>\<open>s.split(sep)\<close> for a separator of one character: never the empty array.\<close>

fun split_on :: "char \<Rightarrow> string \<Rightarrow> string list" where
  "split_on sep [] = [[]]"
| "split_on sep (c # cs) =
     (if c = sep then [] # split_on sep cs
      else (case split_on sep cs of [] \<Rightarrow> [[c]] | w # ws \<Rightarrow> (c # w) # ws))"

text \<open>\<^verbatim>\<open>args[i]\<close>: \<open>None\<close> is \<^verbatim>\<open>undefined\<close>.\<close>

fun arg_at :: "string list \<Rightarrow> nat \<Rightarrow> string option" where
  "arg_at [] i = None"
| "arg_at (a # as) 0 = Some a"
| "arg_at (a # as) (Suc i) = arg_at as i"

fun join_with :: "string \<Rightarrow> string list \<Rightarrow> string" where
  "join_with sep [] = []"
| "join_with sep [s] = s"
| "join_with sep (s # t # ss) = s @ sep @ join_with sep (t # ss)"

subsection \<open>Decimal numbers in messages\<close>

definition digit_char :: "nat \<Rightarrow> char" where
  "digit_char d = char_of (48 + d)"

function show_nat :: "nat \<Rightarrow> string" where
  "show_nat n = (if n < 10 then [digit_char n] else show_nat (n div 10) @ [digit_char (n mod 10)])"
  by pat_completeness auto
termination
  by (relation "measure id") auto

declare show_nat.simps [simp del]

text \<open>
  \<^verbatim>\<open>cpu.speed / 1000\<close> in a template literal, for a speed that is a whole number of MHz:
  the quotient with at most three decimals, trailing zeros dropped.
\<close>

definition show_ghz :: "nat \<Rightarrow> string" where
  "show_ghz mhz =
     (let r = mhz mod 1000;
          frac = [digit_char (r div 100), digit_char (r div 10 mod 10), digit_char (r mod 10)];
          kept = rev (dropWhile (\<lambda>c. c = CHR ''0'') (rev frac))
      in show_nat (mhz div 1000) @ (if kept = [] then [] else CHR ''.'' # kept))"

subsection \<open>The \<^verbatim>\<open>path\<close> module (POSIX)\<close>

datatype errno = ENOENT | ENOTDIR | EISDIR | EACCES | ELOOP | ENOTEMPTY | EINVAL

datatype js_error = TypeError | SystemError errno | ZlibError

definition is_absolute :: "string \<Rightarrow> bool" where
  "is_absolute p \<longleftrightarrow> (case p of [] \<Rightarrow> False | c # _ \<Rightarrow> c = CHR ''/'')"

text \<open>
  \<^verbatim>\<open>normalizeString(path, false, '/')\<close>: empty and \<^verbatim>\<open>.\<close> segments are dropped, a
  \<^verbatim>\<open>..\<close> removes the segment before it and is dropped at the root.
\<close>

definition norm_step :: "string list \<Rightarrow> string \<Rightarrow> string list" where
  "norm_step acc s =
     (if s = [] \<or> s = ''.'' then acc else if s = ''..'' then butlast acc else acc @ [s])"

definition normalize_segments :: "string list \<Rightarrow> string list" where
  "normalize_segments segs = foldl norm_step [] segs"

definition render :: "string list \<Rightarrow> string" where
  "render segs = CHR ''/'' # join_with ''/'' segs"

text \<open>One turn of the loop of \<^verbatim>\<open>path.resolve\<close>: an empty argument is skipped.\<close>

definition prepend_path :: "string \<Rightarrow> string \<Rightarrow> string" where
  "prepend_path p acc = (if p = [] then acc else p @ ''/'' @ acc)"

text \<open>
  \<^verbatim>\<open>path.resolve(a, b)\<close> for two strings: the arguments are taken from the right until
  one is absolute, then the working directory of the process (\<open>wd\<close>, absolute).
\<close>

definition resolve2 :: "string \<Rightarrow> string \<Rightarrow> string \<Rightarrow> string" where
  "resolve2 wd a b =
     (let r1 = prepend_path b [];
          r2 = (if is_absolute b then r1 else prepend_path a r1);
          r3 = (if is_absolute b \<or> is_absolute a then r2 else prepend_path wd r2)
      in render (normalize_segments (split_on CHR ''/'' r3)))"

text \<open>
  \<^verbatim>\<open>path.resolve(currentDir, x)\<close> where \<^verbatim>\<open>x\<close> may be \<^verbatim>\<open>undefined\<close>: every argument the
  loop visits is validated, the last one first, and one that is not a string throws a
  \<^verbatim>\<open>TypeError\<close>.
\<close>

definition path_resolve :: "string \<Rightarrow> string \<Rightarrow> string option \<Rightarrow> js_error + string" where
  "path_resolve wd a x = (case x of None \<Rightarrow> Inl TypeError | Some b \<Rightarrow> Inr (resolve2 wd a b))"

text \<open>\<^verbatim>\<open>path.parse(p).root\<close>.\<close>

definition path_parse_root :: "string \<Rightarrow> string" where
  "path_parse_root p = (if is_absolute p then ''/'' else [])"

definition parent_dir :: "string \<Rightarrow> string" where
  "parent_dir p = render (butlast (normalize_segments (split_on CHR ''/'' p)))"

definition base_name :: "string \<Rightarrow> string" where
  "base_name p = (case rev (normalize_segments (split_on CHR ''/'' p)) of [] \<Rightarrow> [] | s # _ \<Rightarrow> s)"

subsection \<open>The file system\<close>

text \<open>
  A directory entry is a directory, a symbolic link with its target, or a regular file
  given by its inode number; the data of a file belong to the inode, so a stream that has
  opened a file keeps reading it after its name is removed.  Entries are keyed by the
  normalised absolute path under which the kernel finds them, in directory order.
  \<open>noread\<close> and \<open>nowrite\<close> are the paths whose permission bits refuse the process:
  a file that cannot be read or written, a directory whose entries cannot be listed or
  changed.  Symbolic links are followed in the last component of a path, at most
  \<open>symlink_limit\<close> times.
\<close>

datatype node = File nat | Dir | Symlink string

record filesystem =
  entries :: "(string \<times> node) list"
  contents :: "nat \<Rightarrow> byte list"
  next_ino :: nat
  noread :: "string set"
  nowrite :: "string set"

definition lookup :: "filesystem \<Rightarrow> string \<Rightarrow> node option" where
  "lookup fs p = map_of (entries fs) p"

definition symlink_limit :: nat where
  "symlink_limit = 40"

definition link_target :: "string \<Rightarrow> string \<Rightarrow> string" where
  "link_target p t = resolve2 ''/'' (parent_dir p) t"

fun follow :: "filesystem \<Rightarrow> nat \<Rightarrow> string \<Rightarrow> errno + string" where
  "follow fs 0 p = (case lookup fs p of Some (Symlink t) \<Rightarrow> Inl ELOOP | _ \<Rightarrow> Inr p)"
| "follow fs (Suc n) p =
     (case lookup fs p of Some (Symlink t) \<Rightarrow> follow fs n (link_target p t) | _ \<Rightarrow> Inr p)"

text \<open>\<^verbatim>\<open>fs.lstat\<close>: the entry itself, a symbolic link is not followed.\<close>

definition fs_lstat :: "filesystem \<Rightarrow> string \<Rightarrow> errno + node" where
  "fs_lstat fs p = (case lookup fs p of None \<Rightarrow> Inl ENOENT | Some n \<Rightarrow> Inr n)"

text \<open>\<^verbatim>\<open>stat.isDirectory()\<close>.\<close>

definition isDirectory :: "node \<Rightarrow> bool" where
  "isDirectory n \<longleftrightarrow> n = Dir"

text \<open>
  Opening for reading, as a read stream does (flag \<^verbatim>\<open>'r'\<close>).  A directory can be opened
  but not read: the stream reports \<^verbatim>\<open>EISDIR\<close> either way.
\<close>

definition fs_open_read :: "filesystem \<Rightarrow> string \<Rightarrow> errno + nat" where
  "fs_open_read fs p =
     (case follow fs symlink_limit p of
        Inl e \<Rightarrow> Inl e
      | Inr q \<Rightarrow>
          (case lookup fs q of
             None \<Rightarrow> Inl ENOENT
           | Some Dir \<Rightarrow> Inl EISDIR
           | Some (Symlink t) \<Rightarrow> Inl ELOOP
           | Some (File i) \<Rightarrow> if q \<in> noread fs then Inl EACCES else Inr i))"

text \<open>
  Opening for writing with flag \<^verbatim>\<open>'w'\<close>, the default of \<^verbatim>\<open>fs.writeFile\<close> and of a
  write stream: the file is created if it does not exist and truncated if it does.
\<close>

definition fs_open_write :: "filesystem \<Rightarrow> string \<Rightarrow> errno + nat \<times> filesystem" where
  "fs_open_write fs p =
     (case follow fs symlink_limit p of
        Inl e \<Rightarrow> Inl e
      | Inr q \<Rightarrow>
          (case lookup fs q of
             Some Dir \<Rightarrow> Inl EISDIR
           | Some (Symlink t) \<Rightarrow> Inl ELOOP
           | Some (File i) \<Rightarrow>
               if q \<in> nowrite fs then Inl EACCES
               else Inr (i, fs\<lparr>contents := (contents fs)(i := [])\<rparr>)
           | None \<Rightarrow>
               (case lookup fs (parent_dir q) of
                  None \<Rightarrow> Inl ENOENT
                | Some Dir \<Rightarrow>
                    if parent_dir q \<in> nowrite fs then Inl EACCES
                    else Inr (next_ino fs,
                           fs\<lparr>entries := entries fs @ [(q, File (next_ino fs))],
                              contents := (contents fs)(next_ino fs := []),
                              next_ino := Suc (next_ino fs)\<rparr>)
                | Some other \<Rightarrow> Inl ENOTDIR)))"

text \<open>\<^verbatim>\<open>fs.writeFile(path, '')\<close>: open with \<^verbatim>\<open>'w'\<close>, write nothing, close.\<close>

definition fs_writeFile_empty :: "filesystem \<Rightarrow> string \<Rightarrow> errno + filesystem" where
  "fs_writeFile_empty fs p =
     (case fs_open_write fs p of Inl e \<Rightarrow> Inl e | Inr (i, fs') \<Rightarrow> Inr fs')"

text \<open>\<^verbatim>\<open>fs.unlink\<close>: removes a name that is not a directory; a link is not followed.\<close>

definition fs_unlink :: "filesystem \<Rightarrow> string \<Rightarrow> errno + filesystem" where
  "fs_unlink fs p =
     (case lookup fs p of
        None \<Rightarrow> Inl ENOENT
      | Some Dir \<Rightarrow> Inl EISDIR
      | Some other \<Rightarrow>
          if parent_dir p \<in> nowrite fs then Inl EACCES
          else Inr (fs\<lparr>entries := AList.delete p (entries fs)\<rparr>))"

text \<open>\<^verbatim>\<open>fs.rename\<close>: \<open>under d q\<close> says that \<open>q\<close> lies below the directory \<open>d\<close>.\<close>

definition under :: "string \<Rightarrow> string \<Rightarrow> bool" where
  "under d q \<longleftrightarrow>
     (let prefix = (if d = ''/'' then d else d @ ''/'')
      in q \<noteq> d \<and> take (length prefix) q = prefix)"

definition move_entry :: "string \<Rightarrow> string \<Rightarrow> string \<times> node \<Rightarrow> string \<times> node" where
  "move_entry old new e =
     (if fst e = old then (new, snd e)
      else if under old (fst e) then (new @ drop (length old) (fst e), snd e)
      else e)"

definition fs_rename :: "filesystem \<Rightarrow> string \<Rightarrow> string \<Rightarrow> errno + filesystem" where
  "fs_rename fs old new =
     (let moved = fs\<lparr>entries := map (move_entry old new) (AList.delete new (entries fs))\<rparr>
      in case lookup fs old of
           None \<Rightarrow> Inl ENOENT
         | Some n \<Rightarrow>
             (case lookup fs (parent_dir new) of
                None \<Rightarrow> Inl ENOENT
              | Some Dir \<Rightarrow>
                  if parent_dir old \<in> nowrite fs \<or> parent_dir new \<in> nowrite fs then Inl EACCES
                  else if old = new then Inr fs
                  else if n = Dir \<and> under old new then Inl EINVAL
                  else (case lookup fs new of
                          None \<Rightarrow> Inr moved
                        | Some Dir \<Rightarrow>
                            if n \<noteq> Dir then Inl EISDIR
                            else if list_ex (\<lambda>e. under new (fst e)) (entries fs) then Inl ENOTEMPTY
                            else Inr moved
                        | Some other \<Rightarrow> if n = Dir then Inl ENOTDIR else Inr moved)
              | Some other \<Rightarrow> Inl ENOTDIR))"

text \<open>
  \<^verbatim>\<open>fs.readdir(dir, { withFileTypes: true })\<close>: the names in the directory, each with
  \<^verbatim>\<open>isDirectory()\<close> of its entry.
\<close>

definition fs_readdir :: "filesystem \<Rightarrow> string \<Rightarrow> errno + (string \<times> bool) list" where
  "fs_readdir fs p =
     (case follow fs symlink_limit p of
        Inl e \<Rightarrow> Inl e
      | Inr q \<Rightarrow>
          (case lookup fs q of
             None \<Rightarrow> Inl ENOENT
           | Some Dir \<Rightarrow>
               if q \<in> noread fs then Inl EACCES
               else Inr (map (\<lambda>e. (base_name (fst e), isDirectory (snd e)))
                          (filter (\<lambda>e. fst e \<noteq> q \<and> parent_dir (fst e) = q) (entries fs)))
           | Some other \<Rightarrow> Inl ENOTDIR))"


subsection \<open>The session\<close>

text \<open>
  What the program writes to standard output: a line of \<^verbatim>\<open>console.log\<close>, the prompt of
  \<^verbatim>\<open>rl.prompt()\<close>, the rows (Name, Type) of \<^verbatim>\<open>console.table\<close> (the index of a row is
  its position), and file data piped to \<^verbatim>\<open>process.stdout\<close> through a UTF-8 decoder.
\<close>

datatype printed = Log string | Prompt | Table "(string \<times> string) list" | Utf8 "byte list"

text \<open>
  A stream pipeline a handler has set up.  Creating a file stream issues the call that
  opens the file; the handler does not wait for it, but the call is issued before any call
  the handler makes afterwards, and the file system serves calls in the order of issue.  So
  each end of a pipeline holds what opening its file gave, the inode or the error the
  stream will emit, and the data move later, when the pipeline runs.
  \<open>BrotliJob True\<close> compresses.
\<close>

datatype job =
    CatJob "errno + nat"
  | CopyJob "errno + nat" "errno + nat"
  | HashJob "errno + nat"
  | BrotliJob bool "errno + nat" "errno + nat"

record state =
  currentDir :: string
  disk :: filesystem
  out :: "printed list"
  pending :: "job list"

text \<open>
  The host: the \<^verbatim>\<open>--username=\<close> argument, what \<^verbatim>\<open>os\<close> and \<^verbatim>\<open>process.cwd()\<close> report,
  and the digest and codec of \<^verbatim>\<open>crypto\<close> and \<^verbatim>\<open>zlib\<close>, which are native code outside the
  repository.
\<close>

record env =
  username :: string
  homedir :: string
  cwd :: string
  eol :: string
  cpus :: "(string \<times> nat) list"
  os_username :: string
  arch :: string
  sha256 :: "byte list \<Rightarrow> byte list"
  brotli_compress :: "byte list \<Rightarrow> byte list"
  brotli_decompress :: "byte list \<Rightarrow> byte list option"

datatype outcome = Running state | Exited state | Crashed js_error state

definition console_log :: "string \<Rightarrow> state \<Rightarrow> state" where
  "console_log s st = st\<lparr>out := out st @ [Log s]\<rparr>"

definition rl_prompt :: "state \<Rightarrow> state" where
  "rl_prompt st = st\<lparr>out := out st @ [Prompt]\<rparr>"

definition initial :: "env \<Rightarrow> filesystem \<Rightarrow> state" where
  "initial e fs =
     rl_prompt (console_log (''You are currently in '' @ homedir e)
       (console_log (''Welcome to the File Manager, '' @ username e @ ''!'')
          \<lparr>currentDir = homedir e, disk = fs, out = [], pending = []\<rparr>))"

subsection \<open>The handlers\<close>

definition exitProgram :: "env \<Rightarrow> state \<Rightarrow> state" where
  "exitProgram e st =
     console_log (''Thank you for using File Manager, '' @ username e @ '', goodbye!'') st"

definition navigateUp :: "env \<Rightarrow> state \<Rightarrow> state" where
  "navigateUp e st =
     (let rootDir = path_parse_root (currentDir st)
      in if currentDir st \<noteq> rootDir then
           (let st1 = st\<lparr>currentDir := resolve2 (cwd e) (currentDir st) ''..''\<rparr>
            in console_log (''You are currently in '' @ currentDir st1) st1)
         else console_log ''You are at the root directory.'' st)"

definition changeDirectory :: "env \<Rightarrow> state \<Rightarrow> string option \<Rightarrow> state" where
  "changeDirectory e st dir =
     (case path_resolve (cwd e) (currentDir st) dir of
        Inl err \<Rightarrow> console_log ''Invalid input'' st
      | Inr newDir \<Rightarrow>
          (case fs_lstat (disk st) newDir of
             Inl err \<Rightarrow> console_log ''Invalid input'' st
           | Inr stat \<Rightarrow>
               if isDirectory stat then
                 (let st1 = st\<lparr>currentDir := newDir\<rparr>
                  in console_log (''You are currently in '' @ currentDir st1) st1)
               else console_log ''Invalid input'' st))"

definition listFiles :: "env \<Rightarrow> state \<Rightarrow> state" where
  "listFiles e st =
     (case fs_readdir (disk st) (currentDir st) of
        Inl err \<Rightarrow> console_log ''Operation failed'' st
      | Inr files \<Rightarrow>
          st\<lparr>out := out st @
            [Table (map (\<lambda>f. (fst f, if snd f then ''directory'' else ''file'')) files)]\<rparr>)"

definition readFile :: "env \<Rightarrow> state \<Rightarrow> string option \<Rightarrow> js_error + state" where
  "readFile e st filePath =
     (case path_resolve (cwd e) (currentDir st) filePath of
        Inl err \<Rightarrow> Inl err
      | Inr fullPath \<Rightarrow>
          Inr (st\<lparr>pending := pending st @ [CatJob (fs_open_read (disk st) fullPath)]\<rparr>))"

definition createFile :: "env \<Rightarrow> state \<Rightarrow> string option \<Rightarrow> js_error + state" where
  "createFile e st fileName =
     (case path_resolve (cwd e) (currentDir st) fileName of
        Inl err \<Rightarrow> Inl err
      | Inr fullPath \<Rightarrow>
          (case fs_writeFile_empty (disk st) fullPath of
             Inr fs' \<Rightarrow> Inr (console_log ''File created'' (st\<lparr>disk := fs'\<rparr>))
           | Inl err \<Rightarrow> Inr (console_log ''Operation failed'' st)))"

definition renameFile :: "env \<Rightarrow> state \<Rightarrow> string option \<Rightarrow> string option \<Rightarrow> js_error + state" where
  "renameFile e st oldPath newPath =
     (case path_resolve (cwd e) (currentDir st) oldPath of
        Inl err \<Rightarrow> Inl err
      | Inr oldFullPath \<Rightarrow>
          (case path_resolve (cwd e) (currentDir st) newPath of
             Inl err \<Rightarrow> Inl err
           | Inr newFullPath \<Rightarrow>
               (case fs_rename (disk st) oldFullPath newFullPath of
                  Inr fs' \<Rightarrow> Inr (console_log ''File renamed'' (st\<lparr>disk := fs'\<rparr>))
                | Inl err \<Rightarrow> Inr (console_log ''Operation failed'' st))))"

text \<open>
  A read stream and a write stream are created, in this order; the write stream creates or
  truncates its file.  \<open>open_streams\<close> is that pair of calls, shared by \<^verbatim>\<open>copyFile\<close>,
  \<^verbatim>\<open>compressFile\<close> and \<^verbatim>\<open>decompressFile\<close>.
\<close>

definition open_streams ::
  "filesystem \<Rightarrow> string \<Rightarrow> string \<Rightarrow> (errno + nat) \<times> (errno + nat) \<times> filesystem" where
  "open_streams fs srcFullPath destFullPath =
     (let readStream = fs_open_read fs srcFullPath
      in case fs_open_write fs destFullPath of
           Inl err \<Rightarrow> (readStream, Inl err, fs)
         | Inr (i, fs') \<Rightarrow> (readStream, Inr i, fs'))"

definition copyFile :: "env \<Rightarrow> state \<Rightarrow> string option \<Rightarrow> string option \<Rightarrow> js_error + state" where
  "copyFile e st source destination =
     (case path_resolve (cwd e) (currentDir st) source of
        Inl err \<Rightarrow> Inl err
      | Inr srcFullPath \<Rightarrow>
          (case path_resolve (cwd e) (currentDir st) destination of
             Inl err \<Rightarrow> Inl err
           | Inr destFullPath \<Rightarrow>
               (case open_streams (disk st) srcFullPath destFullPath of
                  (readStream, writeStream, fs') \<Rightarrow>
                    Inr (st\<lparr>disk := fs',
                            pending := pending st @ [CopyJob readStream writeStream]\<rparr>))))"

definition deleteFile :: "env \<Rightarrow> state \<Rightarrow> string option \<Rightarrow> js_error + state" where
  "deleteFile e st filePath =
     (case path_resolve (cwd e) (currentDir st) filePath of
        Inl err \<Rightarrow> Inl err
      | Inr fullPath \<Rightarrow>
          (case fs_unlink (disk st) fullPath of
             Inr fs' \<Rightarrow> Inr (console_log ''File deleted'' (st\<lparr>disk := fs'\<rparr>))
           | Inl err \<Rightarrow> Inr (console_log ''Operation failed'' st)))"

text \<open>
  \<^verbatim>\<open>await copyFile(...)\<close> waits for the promise of \<^verbatim>\<open>copyFile\<close>, which is fulfilled as
  soon as the streams are piped; \<^verbatim>\<open>deleteFile\<close> runs next, the copy job still pending.
\<close>

definition moveFile :: "env \<Rightarrow> state \<Rightarrow> string option \<Rightarrow> string option \<Rightarrow> js_error + state" where
  "moveFile e st source destination =
     (case copyFile e st source destination of
        Inl err \<Rightarrow> Inl err
      | Inr st1 \<Rightarrow> deleteFile e st1 source)"

text \<open>
  \<^verbatim>\<open>JSON.stringify\<close> of \<^verbatim>\<open>os.EOL\<close>, which is LF or CR LF: quotes around the escaped
  characters.
\<close>

definition json_escape :: "char \<Rightarrow> string" where
  "json_escape c =
     (if c = CHR 0x0A then [CHR 0x5C, CHR ''n'']
      else if c = CHR 0x0D then [CHR 0x5C, CHR ''r'']
      else if c = CHR 0x22 then [CHR 0x5C, CHR 0x22]
      else if c = CHR 0x5C then [CHR 0x5C, CHR 0x5C]
      else [c])"

definition json_stringify :: "string \<Rightarrow> string" where
  "json_stringify s = [CHR 0x22] @ concat (map json_escape s) @ [CHR 0x22]"

definition cpu_line :: "nat \<times> string \<times> nat \<Rightarrow> printed" where
  "cpu_line c =
     (case c of (idx, model, speed) \<Rightarrow>
        Log (''CPU '' @ show_nat (idx + 1) @ '': '' @ model @ '', '' @ show_ghz speed @ '' GHz''))"

definition handleOSCommand :: "env \<Rightarrow> state \<Rightarrow> string option \<Rightarrow> state" where
  "handleOSCommand e st option =
     (if option = Some ''--EOL'' then console_log (json_stringify (eol e)) st
      else if option = Some ''--cpus'' then
        (let st1 = console_log (''Total CPUs: '' @ show_nat (length (cpus e))) st
         in st1\<lparr>out := out st1 @ map cpu_line (zip [0 ..< length (cpus e)] (cpus e))\<rparr>)
      else if option = Some ''--homedir'' then console_log (homedir e) st
      else if option = Some ''--username'' then console_log (os_username e) st
      else if option = Some ''--architecture'' then console_log (arch e) st
      else console_log ''Invalid input'' st)"

definition calculateHash :: "env \<Rightarrow> state \<Rightarrow> string option \<Rightarrow> js_error + state" where
  "calculateHash e st filePath =
     (case path_resolve (cwd e) (currentDir st) filePath of
        Inl err \<Rightarrow> Inl err
      | Inr fullPath \<Rightarrow>
          Inr (st\<lparr>pending := pending st @ [HashJob (fs_open_read (disk st) fullPath)]\<rparr>))"

definition brotliFile ::
  "bool \<Rightarrow> env \<Rightarrow> state \<Rightarrow> string option \<Rightarrow> string option \<Rightarrow> js_error + state" where
  "brotliFile compressing e st source destination =
     (case path_resolve (cwd e) (currentDir st) source of
        Inl err \<Rightarrow> Inl err
      | Inr srcFullPath \<Rightarrow>
          (case path_resolve (cwd e) (currentDir st) destination of
             Inl err \<Rightarrow> Inl err
           | Inr destFullPath \<Rightarrow>
               (case open_streams (disk st) srcFullPath destFullPath of
                  (readStream, writeStream, fs') \<Rightarrow>
                    Inr (st\<lparr>disk := fs',
                            pending := pending st @
                              [BrotliJob compressing readStream writeStream]\<rparr>))))"

definition compressFile :: "env \<Rightarrow> state \<Rightarrow> string option \<Rightarrow> string option \<Rightarrow> js_error + state" where
  "compressFile = brotliFile True"

definition decompressFile :: "env \<Rightarrow> state \<Rightarrow> string option \<Rightarrow> string option \<Rightarrow> js_error + state" where
  "decompressFile = brotliFile False"

subsection \<open>The \<^verbatim>\<open>'line'\<close> listener\<close>

text \<open>
  \<open>run_command\<close> is the \<^verbatim>\<open>switch\<close> without its first case: \<open>Inl\<close> when the awaited handler
  rejects.  \<open>on_line\<close> is the listener: \<^verbatim>\<open>.exit\<close> ends the process inside
  \<^verbatim>\<open>exitProgram\<close>; a rejection leaves the \<^verbatim>\<open>async\<close> listener as an unhandled rejection,
  which ends the process before \<^verbatim>\<open>rl.prompt()\<close> (Node.js before version 15 only warns
  on standard error; there too nothing is printed on standard output and the prompt is not
  shown); otherwise the prompt is printed.
\<close>

definition run_command :: "env \<Rightarrow> state \<Rightarrow> string \<Rightarrow> string list \<Rightarrow> js_error + state" where
  "run_command e st command args =
     (if command = ''up'' then Inr (navigateUp e st)
      else if command = ''cd'' then Inr (changeDirectory e st (arg_at args 0))
      else if command = ''ls'' then Inr (listFiles e st)
      else if command = ''cat'' then readFile e st (arg_at args 0)
      else if command = ''add'' then createFile e st (arg_at args 0)
      else if command = ''rn'' then renameFile e st (arg_at args 0) (arg_at args 1)
      else if command = ''cp'' then copyFile e st (arg_at args 0) (arg_at args 1)
      else if command = ''mv'' then moveFile e st (arg_at args 0) (arg_at args 1)
      else if command = ''rm'' then deleteFile e st (arg_at args 0)
      else if command = ''os'' then Inr (handleOSCommand e st (arg_at args 0))
      else if command = ''hash'' then calculateHash e st (arg_at args 0)
      else if command = ''compress'' then compressFile e st (arg_at args 0) (arg_at args 1)
      else if command = ''decompress'' then decompressFile e st (arg_at args 0) (arg_at args 1)
      else Inr (console_log ''Invalid input'' st))"

definition parse_line :: "string \<Rightarrow> string \<times> string list" where
  "parse_line input =
     (case split_on CHR '' '' (trim input) of [] \<Rightarrow> ([], []) | command # args \<Rightarrow> (command, args))"

text \<open>
  The events of a pipeline that a handler left pending may arrive as soon as the handler
  waits for a call of its own; the model delivers them after the line has been handled
  (\<open>run_job\<close>, \<open>settle\<close> below), which is the order in which the handler's own calls
  are issued before any data move.
\<close>

definition on_line :: "env \<Rightarrow> state \<Rightarrow> string \<Rightarrow> outcome" where
  "on_line e st input =
     (case parse_line input of
        (command, args) \<Rightarrow>
          if command = ''.exit'' then Exited (exitProgram e st)
          else (case run_command e st command args of
                  Inl err \<Rightarrow> Crashed err st
                | Inr st' \<Rightarrow> Running (rl_prompt st')))"

definition on_sigint :: "env \<Rightarrow> state \<Rightarrow> outcome" where
  "on_sigint e st = Exited (exitProgram e st)"

subsection \<open>Running a pending stream\<close>

text \<open>\<^verbatim>\<open>hash.digest('hex')\<close>: two lower-case hexadecimal digits for each byte.\<close>

definition hex_digit :: "nat \<Rightarrow> char" where
  "hex_digit d = (if d < 10 then char_of (48 + d) else char_of (87 + d))"

definition hex_byte :: "byte \<Rightarrow> string" where
  "hex_byte b = [hex_digit (unat b div 16), hex_digit (unat b mod 16)]"

definition hex :: "byte list \<Rightarrow> string" where
  "hex bs = concat (map hex_byte bs)"

text \<open>
  A \<^verbatim>\<open>Hash\<close> object: \<^verbatim>\<open>update\<close> appends a chunk to what has been fed, \<^verbatim>\<open>digest\<close> is
  the digest of all of it.  \<open>hash_chunks\<close> is the \<^verbatim>\<open>'data'\<close> listener run over the chunks
  of a stream, then the \<^verbatim>\<open>'end'\<close> listener.
\<close>

text \<open>
  A read stream hands its data to the \<^verbatim>\<open>'data'\<close> listener in chunks of at most
  \<open>highWaterMark\<close> bytes (64 KiB for a file stream); an empty file gives no chunk.
\<close>

definition highWaterMark :: nat where
  "highWaterMark = 65536"

function chunks_of :: "nat \<Rightarrow> byte list \<Rightarrow> byte list list" where
  "chunks_of n bs = (if n = 0 \<or> bs = [] then [] else take n bs # chunks_of n (drop n bs))"
  by pat_completeness auto
termination
  by (relation "measure (\<lambda>(n, bs). length bs)") auto

declare chunks_of.simps [simp del]

definition stream_chunks :: "byte list \<Rightarrow> byte list list" where
  "stream_chunks bs = chunks_of highWaterMark bs"

definition hash_update :: "byte list \<Rightarrow> byte list \<Rightarrow> byte list" where
  "hash_update fed chunk = fed @ chunk"

definition hash_digest_hex :: "env \<Rightarrow> byte list \<Rightarrow> string" where
  "hash_digest_hex e fed = hex (sha256 e fed)"

definition hash_chunks :: "env \<Rightarrow> byte list list \<Rightarrow> string" where
  "hash_chunks e chunks = hash_digest_hex e (foldl hash_update [] chunks)"

definition write_inode :: "nat \<Rightarrow> byte list \<Rightarrow> state \<Rightarrow> state" where
  "write_inode i bs st = st\<lparr>disk := (disk st)\<lparr>contents := (contents (disk st))(i := bs)\<rparr>\<rparr>"

text \<open>
  What the listeners of a pipeline do when its events arrive.  \<^verbatim>\<open>readFile\<close>,
  \<^verbatim>\<open>copyFile\<close> and \<^verbatim>\<open>calculateHash\<close> listen for \<^verbatim>\<open>'error'\<close>; the Brotli
  pipelines do not, and an \<^verbatim>\<open>'error'\<close> event without a listener is thrown.
\<close>

definition run_job :: "env \<Rightarrow> job \<Rightarrow> state \<Rightarrow> outcome" where
  "run_job e j st =
     (case j of
        CatJob r \<Rightarrow>
          (case r of
             Inl err \<Rightarrow> Running (console_log ''Operation failed'' st)
           | Inr i \<Rightarrow> Running (st\<lparr>out := out st @ [Utf8 (contents (disk st) i)]\<rparr>))
      | CopyJob r w \<Rightarrow>
          (case r of
             Inl err \<Rightarrow>
               (case w of
                  Inl err' \<Rightarrow>
                    Running (console_log ''Operation failed'' (console_log ''Operation failed'' st))
                | Inr dst \<Rightarrow> Running (console_log ''Operation failed'' st))
           | Inr i \<Rightarrow>
               (case w of
                  Inl err' \<Rightarrow> Running (console_log ''Operation failed'' st)
                | Inr dst \<Rightarrow> Running (write_inode dst (contents (disk st) i) st)))
      | HashJob r \<Rightarrow>
          (case r of
             Inl err \<Rightarrow> Running (console_log ''Operation failed'' st)
           | Inr i \<Rightarrow>
               Running (console_log (hash_chunks e (stream_chunks (contents (disk st) i))) st))
      | BrotliJob compressing r w \<Rightarrow>
          (case r of
             Inl err \<Rightarrow> Crashed (SystemError err) st
           | Inr i \<Rightarrow>
               (case w of
                  Inl err' \<Rightarrow> Crashed (SystemError err') st
                | Inr dst \<Rightarrow>
                    if compressing then
                      Running (write_inode dst (brotli_compress e (contents (disk st) i)) st)
                    else (case brotli_decompress e (contents (disk st) i) of
                            None \<Rightarrow> Crashed ZlibError st
                          | Some bs \<Rightarrow> Running (write_inode dst bs st)))))"



subsection \<open>Vocabulary of the properties\<close>

text \<open>The verbs of the \<^verbatim>\<open>switch\<close> in the \<^verbatim>\<open>'line'\<close> listener.\<close>

definition known_commands :: "string list" where
  "known_commands =
     [''.exit'', ''up'', ''cd'', ''ls'', ''cat'', ''add'', ''rn'', ''cp'', ''mv'', ''rm'', ''os'',
      ''hash'', ''compress'', ''decompress'']"

text \<open>The state in which an outcome leaves the session.\<close>

definition state_of :: "outcome \<Rightarrow> state" where
  "state_of oc = (case oc of Running st \<Rightarrow> st | Exited st \<Rightarrow> st | Crashed err st \<Rightarrow> st)"

text \<open>
  A segment of a normalised path: not empty, not \<^verbatim>\<open>.\<close> or \<^verbatim>\<open>..\<close>, without a slash.
  \<open>render segs\<close> of such segments is a normalised absolute path, and \<open>render []\<close> is the
  root.
\<close>

definition clean_segment :: "string \<Rightarrow> bool" where
  "clean_segment s \<longleftrightarrow> s \<noteq> [] \<and> s \<noteq> ''.'' \<and> s \<noteq> ''..'' \<and> CHR ''/'' \<notin> set s"

subsection \<open>A session for the examples\<close>

text \<open>
  A home directory with a file, a subdirectory and a symbolic link to the subdirectory.
  The digest and the codec of \<open>example_env\<close> are stand-ins; the theorems below hold for
  every host.
\<close>

definition example_fs :: filesystem where
  "example_fs =
     \<lparr>entries =
        [(''/'', Dir), (''/home'', Dir), (''/home/u'', Dir), (''/home/u/a.txt'', File 1),
         (''/home/u/docs'', Dir), (''/home/u/docs/n.txt'', File 2),
         (''/home/u/link'', Symlink ''docs'')],
      contents = (\<lambda>i. [])(1 := [0x68, 0x69], 2 := [0x0A]),
      next_ino = 3,
      noread = {},
      nowrite = {}\<rparr>"

definition example_env :: env where
  "example_env =
     \<lparr>username = ''User'', homedir = ''/home/u'', cwd = ''/srv'', eol = [CHR 0x0A],
      cpus = [(''cpu'', 2400)], os_username = ''u'', arch = ''x64'',
      sha256 = (\<lambda>bs. [of_nat (length bs)]),
      brotli_compress = (\<lambda>bs. 0x3B # bs),
      brotli_decompress = (\<lambda>bs. case bs of [] \<Rightarrow> None | b # rest \<Rightarrow> Some rest)\<rparr>"

definition example_state :: state where
  "example_state = initial example_env example_fs"





section \<open>Properties\<close>

subsection \<open>Parsing a line\<close>

lemma split_on_not_Nil: "split_on c s \<noteq> []"
  by (induction s) (auto split: list.splits)

lemma trim_blank:
  assumes "list_all js_whitespace s"
  shows "trim s = []"
proof -
  have h: "dropWhile js_whitespace s = []"
    using assms by (simp add: list_all_iff)
  show ?thesis unfolding trim_def h by simp
qed

lemma parse_line_blank: "list_all js_whitespace s \<Longrightarrow> parse_line s = ([], [])"
  by (simp add: parse_line_def trim_blank)

lemma run_command_unknown:
  "command \<notin> set known_commands \<Longrightarrow>
     run_command e st command args = Inr (console_log ''Invalid input'' st)"
  by (simp add: known_commands_def run_command_def)

lemma on_line_unknown:
  assumes "fst (parse_line input) \<notin> set known_commands"
  shows "on_line e st input = Running (st\<lparr>out := out st @ [Log ''Invalid input'', Prompt]\<rparr>)"
proof -
  obtain command args where p: "parse_line input = (command, args)"
    by (cases "parse_line input")
  from assms p have u: "command \<notin> set known_commands" by simp
  then have ne: "command \<noteq> ''.exit''" by (auto simp: known_commands_def)
  show ?thesis
    using p ne run_command_unknown [OF u]
    by (simp add: on_line_def rl_prompt_def console_log_def)
qed

text \<open>
  Claim C10.  An input line that is empty or holds only white space is trimmed to the empty
  string, whose split is one empty verb; the verb matches no case of the switch, so the
  program prints \<^verbatim>\<open>Invalid input\<close> and the prompt, and nothing else of the session
  changes: current directory, file system and pending streams are those of before.
\<close>

theorem blank_line_invalid_input:
  assumes "list_all js_whitespace input"
  shows "on_line e st input = Running (st\<lparr>out := out st @ [Log ''Invalid input'', Prompt]\<rparr>)"
proof -
  have "fst (parse_line input) \<notin> set known_commands"
    using parse_line_blank [OF assms] by (simp add: known_commands_def)
  then show ?thesis by (rule on_line_unknown)
qed

theorem blank_line_invalid_input_witness:
  "list_all js_whitespace [CHR '' '', CHR 0x09, CHR '' ''] \<and>
   on_line example_env example_state [CHR '' '', CHR 0x09, CHR '' ''] =
     Running (example_state\<lparr>out := out example_state @ [Log ''Invalid input'', Prompt]\<rparr>)"
  using blank_line_invalid_input [of "[CHR '' '', CHR 0x09, CHR '' '']" example_env example_state]
  by (simp add: js_whitespace_def)

subsection \<open>Who changes the current directory\<close>

lemma currentDir_console_log [simp]: "currentDir (console_log s st) = currentDir st"
  by (simp add: console_log_def)

lemma currentDir_rl_prompt [simp]: "currentDir (rl_prompt st) = currentDir st"
  by (simp add: rl_prompt_def)

lemma listFiles_frame: "currentDir (listFiles e st) = currentDir st"
  by (simp add: listFiles_def split: sum.splits)

lemma readFile_frame: "readFile e st a = Inr st' \<Longrightarrow> currentDir st' = currentDir st"
  by (auto simp: readFile_def split: sum.splits)

lemma createFile_frame: "createFile e st a = Inr st' \<Longrightarrow> currentDir st' = currentDir st"
  by (auto simp: createFile_def split: sum.splits)

lemma renameFile_frame: "renameFile e st a b = Inr st' \<Longrightarrow> currentDir st' = currentDir st"
  by (auto simp: renameFile_def split: sum.splits)

lemma copyFile_frame: "copyFile e st a b = Inr st' \<Longrightarrow> currentDir st' = currentDir st"
  by (auto simp: copyFile_def split: sum.splits prod.splits)

lemma deleteFile_frame: "deleteFile e st a = Inr st' \<Longrightarrow> currentDir st' = currentDir st"
  by (auto simp: deleteFile_def split: sum.splits)

lemma moveFile_frame: "moveFile e st a b = Inr st' \<Longrightarrow> currentDir st' = currentDir st"
  by (auto simp: moveFile_def split: sum.splits dest!: copyFile_frame deleteFile_frame)

lemma handleOSCommand_frame: "currentDir (handleOSCommand e st a) = currentDir st"
  by (simp add: handleOSCommand_def Let_def)

lemma calculateHash_frame: "calculateHash e st a = Inr st' \<Longrightarrow> currentDir st' = currentDir st"
  by (auto simp: calculateHash_def split: sum.splits)

lemma brotliFile_frame: "brotliFile c e st a b = Inr st' \<Longrightarrow> currentDir st' = currentDir st"
  by (auto simp: brotliFile_def split: sum.splits prod.splits)

lemma run_command_frame:
  assumes "command \<noteq> ''cd''" and "command \<noteq> ''up''"
    and "run_command e st command args = Inr st'"
  shows "currentDir st' = currentDir st"
  using assms
  by (auto simp: run_command_def listFiles_frame handleOSCommand_frame compressFile_def
        decompressFile_def
      split: if_splits
      dest: readFile_frame createFile_frame renameFile_frame copyFile_frame moveFile_frame
        deleteFile_frame calculateHash_frame brotliFile_frame)

lemma on_line_frame:
  assumes "fst (parse_line input) \<noteq> ''cd''" and "fst (parse_line input) \<noteq> ''up''"
  shows "currentDir (state_of (on_line e st input)) = currentDir st"
proof -
  obtain command args where p: "parse_line input = (command, args)"
    by (cases "parse_line input")
  with assms have ne: "command \<noteq> ''cd''" "command \<noteq> ''up''" by simp_all
  show ?thesis
  proof (cases "run_command e st command args")
    case (Inl err)
    with p show ?thesis by (simp add: on_line_def state_of_def exitProgram_def)
  next
    case (Inr st')
    with p run_command_frame [OF ne Inr] show ?thesis
      by (simp add: on_line_def state_of_def exitProgram_def)
  qed
qed

lemma run_job_frame: "currentDir (state_of (run_job e j st)) = currentDir st"
  by (simp add: run_job_def state_of_def write_inode_def split: job.splits sum.splits option.splits)

text \<open>
  Claim C7.  A line whose verb is none of the commands prints exactly \<^verbatim>\<open>Invalid input\<close>
  (then the prompt) and changes nothing else, so the current directory stays.  More
  generally, whatever a line whose verb is neither \<^verbatim>\<open>cd\<close> nor \<^verbatim>\<open>up\<close> does, and however
  it ends (prompt, exit, or a rejected handler), the current directory after it is the one
  before; and a stream that a handler left pending does not change it either when it runs.
\<close>

theorem only_navigation_changes_directory:
  "(fst (parse_line input) \<notin> set known_commands \<longrightarrow>
      on_line e st input = Running (st\<lparr>out := out st @ [Log ''Invalid input'', Prompt]\<rparr>)) \<and>
   (fst (parse_line input) \<noteq> ''cd'' \<and> fst (parse_line input) \<noteq> ''up'' \<longrightarrow>
      currentDir (state_of (on_line e st input)) = currentDir st) \<and>
   currentDir (state_of (run_job e j st)) = currentDir st"
  using on_line_unknown [of input e st] on_line_frame [of input e st] run_job_frame [of e j st]
  by blast

theorem only_navigation_changes_directory_witness:
  "fst (parse_line ''frobnicate'') \<notin> set known_commands \<and>
   on_line example_env example_state ''frobnicate'' =
     Running (example_state\<lparr>out := out example_state @ [Log ''Invalid input'', Prompt]\<rparr>) \<and>
   fst (parse_line ''frobnicate'') \<noteq> ''cd'' \<and> fst (parse_line ''frobnicate'') \<noteq> ''up'' \<and>
   currentDir (state_of (on_line example_env example_state ''frobnicate'')) =
     currentDir example_state \<and>
   currentDir (state_of (run_job example_env (HashJob (Inr 1)) example_state)) =
     currentDir example_state"
proof -
  have p: "parse_line ''frobnicate'' = (''frobnicate'', [])"
    by (simp add: parse_line_def trim_def js_whitespace_def)
  have k: "''frobnicate'' \<notin> set known_commands"
    by (simp add: known_commands_def)
  show ?thesis
    using only_navigation_changes_directory
      [of "''frobnicate''" example_env example_state "HashJob (Inr 1)"] k
    by (simp add: p state_of_def)
qed

subsection \<open>Normalised paths\<close>

lemma split_on_append: "split_on c (xs @ c # ys) = split_on c xs @ split_on c ys"
proof (induction xs)
  case Nil
  show ?case by simp
next
  case (Cons x xs)
  obtain w ws where s: "split_on c xs = w # ws"
    using split_on_not_Nil [of c xs] by (cases "split_on c xs") auto
  with Cons show ?case by simp
qed





lemma resolve2_dotdot:
  assumes "is_absolute a"
  shows "resolve2 wd a ''..'' = parent_dir a"
proof -
  have ne: "a \<noteq> []" using assms by (auto simp: is_absolute_def)
  have "split_on CHR ''/'' (a @ CHR ''/'' # ''../'') = split_on CHR ''/'' a @ [''..'', []]"
    by (simp add: split_on_append)
  then show ?thesis
    using assms ne
    by (simp add: resolve2_def prepend_path_def is_absolute_def parent_dir_def
          normalize_segments_def norm_step_def)
qed

text \<open>
  From any absolute current directory, \<^verbatim>\<open>up\<close> goes to the normalised path without its
  last segment, unless the current directory is the string \<^verbatim>\<open>/\<close>.
\<close>

lemma navigateUp_absolute:
  assumes "is_absolute (currentDir st)"
  shows "navigateUp e st =
     (if currentDir st = ''/'' then console_log ''You are at the root directory.'' st
      else console_log (''You are currently in '' @ parent_dir (currentDir st))
             (st\<lparr>currentDir := parent_dir (currentDir st)\<rparr>))"
  using assms resolve2_dotdot [OF assms, of "cwd e"]
  by (simp add: navigateUp_def path_parse_root_def Let_def)




text \<open>
  Every path that \<^verbatim>\<open>path.resolve\<close> returns is normalised, so the current directory
  of a session that starts in a normalised home directory is normalised at every prompt.
\<close>

lemma split_on_segments: "s \<in> set (split_on c xs) \<Longrightarrow> c \<notin> set s"
proof (induction xs arbitrary: s)
  case Nil
  then show ?case by simp
next
  case (Cons x xs)
  obtain w ws where sp: "split_on c xs = w # ws"
    using split_on_not_Nil [of c xs] by (cases "split_on c xs") auto
  show ?case
  proof (cases "x = c")
    case True
    with Cons show ?thesis by auto
  next
    case False
    with Cons.prems sp have "s = x # w \<or> s \<in> set ws" by simp
    then show ?thesis
    proof
      assume "s = x # w"
      moreover have "c \<notin> set w" using Cons.IH [of w] sp by simp
      ultimately show ?thesis using False by simp
    next
      assume "s \<in> set ws"
      then show ?thesis using Cons.IH [of s] sp by simp
    qed
  qed
qed

lemma norm_step_clean:
  "list_all clean_segment acc \<Longrightarrow> CHR ''/'' \<notin> set s \<Longrightarrow> list_all clean_segment (norm_step acc s)"
  by (auto simp: norm_step_def clean_segment_def list_all_iff dest: in_set_butlastD)

lemma foldl_norm_step_all_clean:
  "list_all clean_segment acc \<Longrightarrow> (\<And>s. s \<in> set segs \<Longrightarrow> CHR ''/'' \<notin> set s) \<Longrightarrow>
     list_all clean_segment (foldl norm_step acc segs)"
  by (induction segs arbitrary: acc) (simp_all add: norm_step_clean)

lemma normalize_split_clean:
  "list_all clean_segment (normalize_segments (split_on CHR ''/'' p))"
  unfolding normalize_segments_def
  by (rule foldl_norm_step_all_clean) (simp_all add: split_on_segments)

lemma resolve2_canonical:
  "\<exists>segs. list_all clean_segment segs \<and> resolve2 wd a b = render segs"
  using normalize_split_clean by (auto simp: resolve2_def Let_def)

lemma changeDirectory_canonical:
  assumes "\<exists>segs. list_all clean_segment segs \<and> currentDir st = render segs"
  shows "\<exists>segs. list_all clean_segment segs \<and> currentDir (changeDirectory e st dir) = render segs"
  using assms resolve2_canonical [of "cwd e" "currentDir st"]
  by (auto simp: changeDirectory_def path_resolve_def split: option.splits sum.splits)

lemma navigateUp_keeps_canonical:
  assumes "\<exists>segs. list_all clean_segment segs \<and> currentDir st = render segs"
  shows "\<exists>segs. list_all clean_segment segs \<and> currentDir (navigateUp e st) = render segs"
  using assms resolve2_canonical [of "cwd e" "currentDir st" "''..''"]
  by (auto simp: navigateUp_def Let_def)

lemma currentDir_stays_canonical:
  assumes "\<exists>segs. list_all clean_segment segs \<and> currentDir st = render segs"
  shows "\<exists>segs. list_all clean_segment segs \<and>
           currentDir (state_of (on_line e st input)) = render segs"
proof (cases "fst (parse_line input) = ''cd'' \<or> fst (parse_line input) = ''up''")
  case False
  then show ?thesis using on_line_frame [of input e st] assms by simp
next
  case True
  obtain command args where p: "parse_line input = (command, args)"
    by (cases "parse_line input")
  from True p have "command = ''cd'' \<or> command = ''up''" by simp
  then show ?thesis
  proof
    assume "command = ''cd''"
    with p changeDirectory_canonical [OF assms, of e "arg_at args 0"] show ?thesis
      by (simp add: on_line_def run_command_def state_of_def)
  next
    assume "command = ''up''"
    with p navigateUp_keeps_canonical [OF assms, of e] show ?thesis
      by (simp add: on_line_def run_command_def state_of_def)
  qed
qed

subsection \<open>Examples evaluated\<close>


lemma parse_cd_link: "parse_line ''cd link'' = (''cd'', [''link''])"
  by (simp add: parse_line_def trim_def js_whitespace_def)

lemma example_currentDir: "currentDir example_state = ''/home/u''"
  by (simp add: example_state_def initial_def example_env_def rl_prompt_def console_log_def)

lemma example_disk: "disk example_state = example_fs"
  by (simp add: example_state_def initial_def example_env_def rl_prompt_def console_log_def)

lemma resolve_link: "resolve2 ''/srv'' ''/home/u'' ''link'' = ''/home/u/link''"
  by (simp add: resolve2_def prepend_path_def is_absolute_def normalize_segments_def
        norm_step_def render_def)

lemma parse_rm_docs: "parse_line ''rm docs'' = (''rm'', [''docs''])"
  by (simp add: parse_line_def trim_def js_whitespace_def)

lemma resolve_docs: "resolve2 ''/srv'' ''/home/u'' ''docs'' = ''/home/u/docs''"
  by (simp add: resolve2_def prepend_path_def is_absolute_def normalize_segments_def
        norm_step_def render_def)

lemma example_cwd: "cwd example_env = ''/srv''"
  by (simp add: example_env_def)

subsection \<open>Streams and digests\<close>









subsection \<open>Opening a file for writing\<close>











subsection \<open>Going up\<close>



subsection \<open>Changing into a symbolic link\<close>

text \<open>
  Claim C8.  When the argument of \<^verbatim>\<open>cd\<close> resolves to a path whose entry is a symbolic
  link, whatever the link points to (an existing directory in particular),
  \<^verbatim>\<open>lstat\<close> reports the link, \<^verbatim>\<open>isDirectory()\<close> is false, and the program prints
  \<^verbatim>\<open>Invalid input\<close> and the prompt; the current directory and the rest of the session
  are unchanged.
\<close>

theorem cd_symlink_invalid_input:
  assumes "parse_line input = (''cd'', p # rest)"
    and "lookup (disk st) (resolve2 (cwd e) (currentDir st) p) = Some (Symlink target)"
  shows "on_line e st input = Running (st\<lparr>out := out st @ [Log ''Invalid input'', Prompt]\<rparr>)"
  using assms
  by (simp add: on_line_def run_command_def changeDirectory_def path_resolve_def fs_lstat_def
        isDirectory_def rl_prompt_def console_log_def)

theorem cd_symlink_invalid_input_witness:
  "parse_line ''cd link'' = (''cd'', [''link'']) \<and>
   lookup (disk example_state) (resolve2 (cwd example_env) (currentDir example_state) ''link'') =
     Some (Symlink ''docs'') \<and>
   lookup (disk example_state) (link_target ''/home/u/link'' ''docs'') = Some Dir \<and>
   on_line example_env example_state ''cd link'' =
     Running (example_state\<lparr>out := out example_state @ [Log ''Invalid input'', Prompt]\<rparr>)"
proof -
  have w: "cwd example_env = ''/srv''" by (simp add: example_env_def)
  have l: "lookup (disk example_state) (resolve2 (cwd example_env) (currentDir example_state) ''link'') =
     Some (Symlink ''docs'')"
    by (simp add: w example_currentDir example_disk resolve_link lookup_def example_fs_def)
  have t: "lookup (disk example_state) (link_target ''/home/u/link'' ''docs'') = Some Dir"
    by (simp add: example_disk lookup_def example_fs_def link_target_def parent_dir_def
          resolve2_def prepend_path_def is_absolute_def normalize_segments_def norm_step_def
          render_def)
  show ?thesis
    using cd_symlink_invalid_input [OF parse_cd_link l] l t parse_cd_link
    by simp
qed

subsection \<open>Removing a directory\<close>

text \<open>
  Claim C9.  When the argument of \<^verbatim>\<open>rm\<close> resolves to a path whose entry is a directory,
  \<^verbatim>\<open>unlink\<close> fails, the program prints \<^verbatim>\<open>Operation failed\<close> and the prompt, and the
  file system (the directory and everything in it) is the one of before.
\<close>

theorem rm_directory_fails:
  assumes "parse_line input = (''rm'', p # rest)"
    and "lookup (disk st) (resolve2 (cwd e) (currentDir st) p) = Some Dir"
  shows "on_line e st input = Running (st\<lparr>out := out st @ [Log ''Operation failed'', Prompt]\<rparr>)"
  using assms
  by (simp add: on_line_def run_command_def deleteFile_def path_resolve_def fs_unlink_def
        rl_prompt_def console_log_def)

theorem rm_directory_fails_witness:
  "parse_line ''rm docs'' = (''rm'', [''docs'']) \<and>
   lookup (disk example_state) (resolve2 (cwd example_env) (currentDir example_state) ''docs'') =
     Some Dir \<and>
   on_line example_env example_state ''rm docs'' =
     Running (example_state\<lparr>out := out example_state @ [Log ''Operation failed'', Prompt]\<rparr>)"
proof -
  have l: "lookup (disk example_state)
      (resolve2 (cwd example_env) (currentDir example_state) ''docs'') = Some Dir"
    by (simp add: example_cwd example_currentDir example_disk resolve_docs lookup_def
          example_fs_def)
  show ?thesis
    using rm_directory_fails [OF parse_rm_docs l] l parse_rm_docs
    by simp
qed

subsection \<open>More examples evaluated\<close>




















subsection \<open>The digest of a file\<close>



subsection \<open>Creating a file\<close>





subsection \<open>Copying, deleting, moving\<close>




























subsection \<open>A command without its argument\<close>

lemma run_command_no_argument:
  "run_command e st ''cat'' [] = Inl TypeError"
  "run_command e st ''add'' [] = Inl TypeError"
  "run_command e st ''rn'' [] = Inl TypeError"
  "run_command e st ''cp'' [] = Inl TypeError"
  "run_command e st ''mv'' [] = Inl TypeError"
  "run_command e st ''rm'' [] = Inl TypeError"
  "run_command e st ''hash'' [] = Inl TypeError"
  "run_command e st ''compress'' [] = Inl TypeError"
  "run_command e st ''decompress'' [] = Inl TypeError"
  by (simp_all add: run_command_def readFile_def createFile_def renameFile_def copyFile_def
        moveFile_def deleteFile_def calculateHash_def compressFile_def decompressFile_def
        brotliFile_def path_resolve_def)

lemma run_command_one_argument:
  "run_command e st ''rn'' [a] = Inl TypeError"
  "run_command e st ''cp'' [a] = Inl TypeError"
  "run_command e st ''mv'' [a] = Inl TypeError"
  "run_command e st ''compress'' [a] = Inl TypeError"
  "run_command e st ''decompress'' [a] = Inl TypeError"
  by (simp_all add: run_command_def renameFile_def copyFile_def moveFile_def compressFile_def
        decompressFile_def brotliFile_def path_resolve_def)

lemma on_line_rejected:
  assumes "parse_line input = (command, args)" and "command \<noteq> ''.exit''"
    and "run_command e st command args = Inl err"
  shows "on_line e st input = Crashed err st"
  using assms by (simp add: on_line_def)

lemma missing_argument_rejects:
  "(command \<in> set [''cat'', ''add'', ''rn'', ''cp'', ''mv'', ''rm'', ''hash'', ''compress'',
        ''decompress''] \<and>
      parse_line input = (command, []) \<longrightarrow>
      on_line e st input = Crashed TypeError st) \<and>
   (command \<in> set [''rn'', ''cp'', ''mv'', ''compress'', ''decompress''] \<and>
      parse_line input = (command, [a]) \<longrightarrow>
      on_line e st input = Crashed TypeError st)"
proof (intro conjI impI)
  assume h: "command \<in> set [''cat'', ''add'', ''rn'', ''cp'', ''mv'', ''rm'', ''hash'',
      ''compress'', ''decompress''] \<and> parse_line input = (command, [])"
  then have "run_command e st command [] = Inl TypeError"
    using run_command_no_argument [of e st] by (elim conjE) (simp, blast)
  moreover from h have "command \<noteq> ''.exit''" by auto
  ultimately show "on_line e st input = Crashed TypeError st"
    using h by (intro on_line_rejected [of input command "[]"]) simp_all
next
  assume h: "command \<in> set [''rn'', ''cp'', ''mv'', ''compress'', ''decompress''] \<and>
      parse_line input = (command, [a])"
  then have "run_command e st command [a] = Inl TypeError"
    using run_command_one_argument [of e st a] by (elim conjE) (simp, blast)
  moreover from h have "command \<noteq> ''.exit''" by auto
  ultimately show "on_line e st input = Crashed TypeError st"
    using h by (intro on_line_rejected [of input command "[a]"]) simp_all
qed

lemma cd_os_missing_argument:
  "command = ''cd'' \<or> command = ''os'' \<Longrightarrow> parse_line input = (command, []) \<Longrightarrow>
     on_line e st input = Running (st\<lparr>out := out st @ [Log ''Invalid input'', Prompt]\<rparr>)"
proof -
  assume p: "parse_line input = (command, [])"
  assume "command = ''cd'' \<or> command = ''os''"
  then show ?thesis
  proof
    assume "command = ''cd''"
    with p show ?thesis
      by (simp add: on_line_def run_command_def changeDirectory_def path_resolve_def
            rl_prompt_def console_log_def)
  next
    assume "command = ''os''"
    with p show ?thesis
      by (simp add: on_line_def run_command_def handleOSCommand_def rl_prompt_def
            console_log_def)
  qed
qed

lemma parse_cat: "parse_line ''cat'' = (''cat'', [])"
  by (simp add: parse_line_def trim_def js_whitespace_def)

lemma parse_rn_a: "parse_line ''rn a.txt'' = (''rn'', [''a.txt''])"
  by (simp add: parse_line_def trim_def js_whitespace_def)

lemma parse_cd: "parse_line ''cd'' = (''cd'', [])"
  by (simp add: parse_line_def trim_def js_whitespace_def)

text \<open>
  Claim C1, evaluated on the code.  The claim says that a known command without its
  required argument prints \<^verbatim>\<open>Invalid input\<close> and that the loop goes on.  For \<^verbatim>\<open>cd\<close>
  it does: the \<^verbatim>\<open>TypeError\<close> of \<^verbatim>\<open>path.resolve\<close> is thrown inside the \<^verbatim>\<open>try\<close> block.
  For \<^verbatim>\<open>cat\<close> without a path and \<^verbatim>\<open>rn\<close> with one argument \<^verbatim>\<open>path.resolve\<close> is
  called outside any \<^verbatim>\<open>try\<close> block: the handler's promise is rejected, the listener
  does not catch it, nothing is printed and the prompt is not shown again.
\<close>

theorem missing_path_is_unhandled:
  "on_line e st ''cat'' = Crashed TypeError st \<and>
   on_line e st ''rn a.txt'' = Crashed TypeError st \<and>
   out (state_of (on_line e st ''cat'')) = out st \<and>
   on_line e st ''cd'' = Running (st\<lparr>out := out st @ [Log ''Invalid input'', Prompt]\<rparr>)"
proof -
  have c: "on_line e st ''cat'' = Crashed TypeError st"
    using missing_argument_rejects [of "''cat''" "''cat''" e st] parse_cat by simp
  have r: "on_line e st ''rn a.txt'' = Crashed TypeError st"
    using missing_argument_rejects [of "''rn''" "''rn a.txt''" e st "''a.txt''"] parse_rn_a
    by simp
  have d: "on_line e st ''cd'' = Running (st\<lparr>out := out st @ [Log ''Invalid input'', Prompt]\<rparr>)"
    using cd_os_missing_argument [of "''cd''" "''cd''" e st] parse_cd by simp
  show ?thesis
    using c r d by (simp add: state_of_def)
qed

end
